theory Spec2Isabelle
  imports Complex_Main
begin

section \<open>Python numbers\<close>

text \<open>
  The module-level constants of \<^verbatim>\<open>main.py\<close> (lines 11 to 14). They are
  Python integers.
\<close>

definition WIDTH :: int where "WIDTH = 640"
definition HEIGHT :: int where "HEIGHT = 480"
definition UI_TOP_BAR_HEIGHT :: int where "UI_TOP_BAR_HEIGHT = 32"
definition BUTTON_SIZE :: int where "BUTTON_SIZE = 20"
definition BUTTON_MARGIN :: int where "BUTTON_MARGIN = 6"

text \<open>The Python exceptions the modelled code can raise.\<close>

datatype error = ValueError | AttributeError | OverflowError

text \<open>
  A coordinate, a radius or a size is a Python \<^verbatim>\<open>int\<close> (the literals and the
  layout arithmetic of \<^verbatim>\<open>main.py\<close>) or a Python \<^verbatim>\<open>float\<close> (what
  \<^verbatim>\<open>glfw\<close> reports for the cursor). Integers are unbounded and their arithmetic
  is exact. A float is an IEEE double: its arithmetic rounds, overflows and
  has infinities, none of which is fixed here. The type \<open>'f\<close> of floats and the
  operations on it are parameters of everything below, so that what is proved
  holds for the arithmetic of the machine, whatever it rounds to.
\<close>

datatype 'f number = PyInt int | PyFloat 'f

text \<open>
  The float operations the code reaches:
  \<^item> \<open>float_of_int\<close>: the conversion Python applies to the \<^verbatim>\<open>int\<close> operand of
    a mixed operation; it raises \<^verbatim>\<open>OverflowError\<close> for an integer beyond the
    range of a double;
  \<^item> \<open>float_add\<close>, \<open>float_sub\<close>: \<^verbatim>\<open>+\<close> and \<^verbatim>\<open>-\<close>, which never raise;
  \<^item> \<open>float_pow_2\<close>, \<open>float_pow_half\<close>: \<^verbatim>\<open>** 2\<close> and \<^verbatim>\<open>** 0.5\<close>;
    \<^verbatim>\<open>**\<close> raises \<^verbatim>\<open>OverflowError\<close> when the result is out of range;
  \<^item> \<open>float_le\<close>, \<open>float_le_int\<close>, \<open>int_le_float\<close>: \<^verbatim>\<open><=\<close> between two
    floats and between a float and an integer (Python compares the latter two
    by value, without converting), which never raise.
\<close>

record 'f float_ops =
  float_of_int :: "int \<Rightarrow> error + 'f"
  float_add :: "'f \<Rightarrow> 'f \<Rightarrow> 'f"
  float_sub :: "'f \<Rightarrow> 'f \<Rightarrow> 'f"
  float_pow_2 :: "'f \<Rightarrow> error + 'f"
  float_pow_half :: "'f \<Rightarrow> error + 'f"
  float_le :: "'f \<Rightarrow> 'f \<Rightarrow> bool"
  float_le_int :: "'f \<Rightarrow> int \<Rightarrow> bool"
  int_le_float :: "int \<Rightarrow> 'f \<Rightarrow> bool"

text \<open>Evaluation continues with the value unless an exception was raised.\<close>

definition and_then :: "error + 'a \<Rightarrow> ('a \<Rightarrow> error + 'b) \<Rightarrow> error + 'b" where
  "and_then r f = (case r of Inl e \<Rightarrow> Inl e | Inr v \<Rightarrow> f v)"

text \<open>\<^verbatim>\<open>a - b\<close> and \<^verbatim>\<open>a + b\<close> on Python numbers.\<close>

fun num_sub :: "'f float_ops \<Rightarrow> 'f number \<Rightarrow> 'f number \<Rightarrow> error + 'f number" where
  "num_sub ops (PyInt i) (PyInt j) = Inr (PyInt (i - j))"
| "num_sub ops (PyInt i) (PyFloat g) =
     and_then (float_of_int ops i) (\<lambda>f. Inr (PyFloat (float_sub ops f g)))"
| "num_sub ops (PyFloat f) (PyInt j) =
     and_then (float_of_int ops j) (\<lambda>g. Inr (PyFloat (float_sub ops f g)))"
| "num_sub ops (PyFloat f) (PyFloat g) = Inr (PyFloat (float_sub ops f g))"

fun num_add :: "'f float_ops \<Rightarrow> 'f number \<Rightarrow> 'f number \<Rightarrow> error + 'f number" where
  "num_add ops (PyInt i) (PyInt j) = Inr (PyInt (i + j))"
| "num_add ops (PyInt i) (PyFloat g) =
     and_then (float_of_int ops i) (\<lambda>f. Inr (PyFloat (float_add ops f g)))"
| "num_add ops (PyFloat f) (PyInt j) =
     and_then (float_of_int ops j) (\<lambda>g. Inr (PyFloat (float_add ops f g)))"
| "num_add ops (PyFloat f) (PyFloat g) = Inr (PyFloat (float_add ops f g))"

text \<open>
  \<^verbatim>\<open>a ** 2\<close>: exact on an integer. \<^verbatim>\<open>a ** 0.5\<close>: always a float operation,
  an integer base is converted first. (Python returns a complex number for a
  negative base; the only base the code raises to 0.5 is a sum of two squares.)
\<close>

fun num_pow_2 :: "'f float_ops \<Rightarrow> 'f number \<Rightarrow> error + 'f number" where
  "num_pow_2 ops (PyInt i) = Inr (PyInt (i * i))"
| "num_pow_2 ops (PyFloat f) = and_then (float_pow_2 ops f) (\<lambda>g. Inr (PyFloat g))"

fun num_pow_half :: "'f float_ops \<Rightarrow> 'f number \<Rightarrow> error + 'f number" where
  "num_pow_half ops (PyInt i) =
     and_then (float_of_int ops i)
       (\<lambda>f. and_then (float_pow_half ops f) (\<lambda>g. Inr (PyFloat g)))"
| "num_pow_half ops (PyFloat f) = and_then (float_pow_half ops f) (\<lambda>g. Inr (PyFloat g))"

text \<open>\<^verbatim>\<open>a <= b\<close> on Python numbers.\<close>

fun num_le :: "'f float_ops \<Rightarrow> 'f number \<Rightarrow> 'f number \<Rightarrow> bool" where
  "num_le ops (PyInt i) (PyInt j) = (i \<le> j)"
| "num_le ops (PyInt i) (PyFloat g) = int_le_float ops i g"
| "num_le ops (PyFloat f) (PyInt j) = float_le_int ops f j"
| "num_le ops (PyFloat f) (PyFloat g) = float_le ops f g"

section \<open>Data model of \<^verbatim>\<open>main.py\<close>\<close>

text \<open>
  Modelled from the spec: the class \<^verbatim>\<open>vec2\<close> of
  \<^verbatim>\<open>shared_python.shared_math.geometry\<close>, which \<^verbatim>\<open>main.py\<close> imports
  and which is not among the source files. \<^verbatim>\<open>main.py\<close> constructs it as
  \<^verbatim>\<open>vec2(x, y)\<close> and reads its attributes \<^verbatim>\<open>x\<close> and \<^verbatim>\<open>y\<close>. The spec
  describes a point as a 2D coordinate (x, y); the drag controller computes
  \<^verbatim>\<open>delta = new_pos - last_known_pos\<close> and translates the centre by that delta
  in place. So \<^verbatim>\<open>a - b\<close> yields a new point with the differences of the
  coordinates, and \<^verbatim>\<open>a.translate(d)\<close> adds the coordinates of \<^verbatim>\<open>d\<close> to those
  of the object \<^verbatim>\<open>a\<close>, or raises and leaves \<^verbatim>\<open>a\<close> as it was.
\<close>

record 'f vec2 =
  x :: "'f number"
  y :: "'f number"

definition vec2_sub :: "'f float_ops \<Rightarrow> 'f vec2 \<Rightarrow> 'f vec2 \<Rightarrow> error + 'f vec2" where
  "vec2_sub ops a b =
     and_then (num_sub ops (x a) (x b))
       (\<lambda>dx. and_then (num_sub ops (y a) (y b)) (\<lambda>dy. Inr \<lparr>x = dx, y = dy\<rparr>))"

definition vec2_translate :: "'f float_ops \<Rightarrow> 'f vec2 \<Rightarrow> 'f vec2 \<Rightarrow> error + 'f vec2" where
  "vec2_translate ops a d =
     and_then (num_add ops (x a) (x d))
       (\<lambda>nx. and_then (num_add ops (y a) (y d)) (\<lambda>ny. Inr \<lparr>x = nx, y = ny\<rparr>))"

text \<open>\<^verbatim>\<open>skia.Color(r, g, b)\<close>; colours are only stored and drawn.\<close>

datatype Color = Color nat nat nat

datatype MOUSE_ACTION =
  LEFT_CLICK_DOWN | LEFT_CLICK_DRAG | LEFT_CLICK_UP | RIGHT_CLICK_DOWN

text \<open>
  Shapes and points are Python objects. The scene's list, the selection and the
  drag record hold references to shape objects, and \<^verbatim>\<open>list.remove\<close> compares
  shapes by identity (\<^verbatim>\<open>Shape\<close> defines no \<^verbatim>\<open>__eq__\<close>). A shape holds a
  reference to the \<^verbatim>\<open>vec2\<close> object its constructor was given, and the drag
  record holds a reference to the \<^verbatim>\<open>vec2\<close> of the last event; two shapes built
  on one \<^verbatim>\<open>vec2\<close> share their centre. A reference is an address, and the heap
  gives the object at each address. An object stays alive as long as anything
  refers to it, so the heap is total and removal from the scene never deletes
  from it.
\<close>

type_synonym ref = nat
type_synonym vref = nat

record 'f Shape =
  s_pos :: vref
  radius :: "'f number"
  s_color :: Color
  shape_id :: nat

record 'f heap =
  vecs :: "vref \<Rightarrow> 'f vec2"
  objs :: "ref \<Rightarrow> 'f Shape"

text \<open>\<^verbatim>\<open>class draggable\<close> (lines 24 to 32).\<close>

record draggable =
  current_pos :: vref
  shape :: ref

text \<open>\<^verbatim>\<open>class Scene\<close> (lines 187 to 223).\<close>

record Scene =
  shapes :: "ref list"
  draggable :: "draggable option"
  selected :: "ref option"

section \<open>Shapes and the drag record\<close>

text \<open>
  \<^verbatim>\<open>Shape.contains\<close> (lines 174 to 177):
  \<^verbatim>\<open>((pos.x - self.pos.x) ** 2 + (pos.y - self.pos.y) ** 2) ** 0.5 <= self.radius\<close>,
  evaluated left to right; the first exception ends the evaluation.
\<close>

definition Shape_contains :: "'f float_ops \<Rightarrow> 'f heap \<Rightarrow> ref \<Rightarrow> vref \<Rightarrow> error + bool" where
  "Shape_contains ops h self pos =
     (let p = vecs h pos; c = vecs h (s_pos (objs h self))
      in and_then (num_sub ops (x p) (x c)) (\<lambda>dx.
         and_then (num_pow_2 ops dx) (\<lambda>dx2.
         and_then (num_sub ops (y p) (y c)) (\<lambda>dy.
         and_then (num_pow_2 ops dy) (\<lambda>dy2.
         and_then (num_add ops dx2 dy2) (\<lambda>s.
         and_then (num_pow_half ops s) (\<lambda>distance.
         Inr (num_le ops distance (radius (objs h self))))))))))"

text \<open>
  \<^verbatim>\<open>Shape.translate\<close> (lines 179 and 180) is \<^verbatim>\<open>self.pos.translate(pos)\<close>:
  it mutates the \<^verbatim>\<open>vec2\<close> object the shape refers to, in place, so every
  holder of that object sees the move.
\<close>

definition Shape_translate :: "'f float_ops \<Rightarrow> 'f heap \<Rightarrow> ref \<Rightarrow> 'f vec2 \<Rightarrow> error + 'f heap" where
  "Shape_translate ops h self d =
     and_then (vec2_translate ops (vecs h (s_pos (objs h self))) d)
       (\<lambda>v. Inr (h\<lparr>vecs := (vecs h)(s_pos (objs h self) := v)\<rparr>))"

text \<open>
  \<^verbatim>\<open>draggable.__init__\<close> and \<^verbatim>\<open>draggable.work\<close> (lines 25 to 32). The
  difference \<^verbatim>\<open>pos - self.current_pos\<close> is a new object that only
  \<^verbatim>\<open>work\<close> holds, so it is passed on by value. The result is the exception
  raised, if any, with the heap and the drag record as they are after the call:
  when \<^verbatim>\<open>translate\<close> raises, \<^verbatim>\<open>current_pos\<close> has been assigned already.
\<close>

definition draggable_init :: "vref \<Rightarrow> ref \<Rightarrow> draggable" where
  "draggable_init start_pos dragging_shape =
     \<lparr>current_pos = start_pos, shape = dragging_shape\<rparr>"

definition draggable_work ::
  "'f float_ops \<Rightarrow> 'f heap \<Rightarrow> draggable \<Rightarrow> vref \<Rightarrow> error option \<times> 'f heap \<times> draggable" where
  "draggable_work ops h d pos =
     (case vec2_sub ops (vecs h pos) (vecs h (current_pos d)) of
        Inl e \<Rightarrow> (Some e, h, d)
      | Inr distance \<Rightarrow>
          (let d' = d\<lparr>current_pos := pos\<rparr>
           in case Shape_translate ops h (shape d') distance of
                Inl e \<Rightarrow> (Some e, h, d')
              | Inr h' \<Rightarrow> (None, h', d')))"

section \<open>The scene\<close>

definition Scene_init :: Scene where
  "Scene_init = \<lparr>shapes = [], draggable = None, selected = None\<rparr>"

definition Scene_add_shape :: "Scene \<Rightarrow> ref \<Rightarrow> Scene" where
  "Scene_add_shape sc r = sc\<lparr>shapes := shapes sc @ [r]\<rparr>"

text \<open>
  Python's \<^verbatim>\<open>list.remove(v)\<close>: deletes the first element equal to \<^verbatim>\<open>v\<close> and
  raises \<^verbatim>\<open>ValueError\<close> when there is none.
\<close>

fun list_remove :: "'a list \<Rightarrow> 'a \<Rightarrow> error + 'a list" where
  "list_remove [] v = Inl ValueError"
| "list_remove (a # as) v =
     (if a = v then Inr as
      else (case list_remove as v of Inl e \<Rightarrow> Inl e | Inr bs \<Rightarrow> Inr (a # bs)))"

text \<open>
  \<^verbatim>\<open>Scene.remove_shape\<close> (lines 196 and 197) is the single statement
  \<^verbatim>\<open>self.shapes.remove(shape)\<close>. The result is the exception raised, if any,
  and the scene as it is after the call.
\<close>

definition Scene_remove_shape :: "Scene \<Rightarrow> ref \<Rightarrow> error option \<times> Scene" where
  "Scene_remove_shape sc r =
     (case list_remove (shapes sc) r of
        Inl e \<Rightarrow> (Some e, sc)
      | Inr rs \<Rightarrow> (None, sc\<lparr>shapes := rs\<rparr>))"

text \<open>
  The loop of the \<^verbatim>\<open>LEFT_CLICK_DOWN\<close> case (lines 207 to 210):
  \<^verbatim>\<open>for this_shape in self.shapes: if this_shape.contains(pos): ... return True\<close>.
  It yields the shape at which the loop returns, or \<open>None\<close> when the loop runs to
  its end, or the exception that \<^verbatim>\<open>contains\<close> raised.
\<close>

fun find_containing ::
  "'f float_ops \<Rightarrow> 'f heap \<Rightarrow> ref list \<Rightarrow> vref \<Rightarrow> error + ref option" where
  "find_containing ops h [] pos = Inr None"
| "find_containing ops h (this_shape # rest) pos =
     (case Shape_contains ops h this_shape pos of
        Inl e \<Rightarrow> Inl e
      | Inr inside \<Rightarrow>
          (if inside then Inr (Some this_shape) else find_containing ops h rest pos))"

text \<open>
  \<^verbatim>\<open>Scene.mouse_action\<close> (lines 203 to 223). The first component of the result
  is the exception raised or else what the Python function returns:
  \<^verbatim>\<open>True\<close>, \<^verbatim>\<open>False\<close> or, where it falls off its end, \<^verbatim>\<open>None\<close>. The others
  are the heap and the scene after the call. The \<^verbatim>\<open>match\<close> has no case for
  \<^verbatim>\<open>RIGHT_CLICK_DOWN\<close>.
\<close>

fun Scene_mouse_action ::
  "'f float_ops \<Rightarrow> MOUSE_ACTION \<Rightarrow> vref \<Rightarrow> 'f heap \<times> Scene \<Rightarrow>
     (error + bool option) \<times> 'f heap \<times> Scene" where
  "Scene_mouse_action ops LEFT_CLICK_DOWN pos (h, sc) =
     (if selected sc = None then
        (case find_containing ops h (shapes sc) pos of
           Inl e \<Rightarrow> (Inl e, h, sc)
         | Inr (Some this_shape) \<Rightarrow> (Inr (Some True), h, sc\<lparr>selected := Some this_shape\<rparr>)
         | Inr None \<Rightarrow> (Inr None, h, sc))
      else (Inr None, h, sc))"
| "Scene_mouse_action ops LEFT_CLICK_DRAG pos (h, sc) =
     (case selected sc of
        None \<Rightarrow> (Inr (Some False), h, sc)
      | Some sel \<Rightarrow>
          (case draggable sc of
             None \<Rightarrow> (Inr None, h, sc\<lparr>draggable := Some (draggable_init pos sel)\<rparr>)
           | Some d \<Rightarrow>
               (case draggable_work ops h d pos of
                  (None, h', d') \<Rightarrow> (Inr None, h', sc\<lparr>draggable := Some d'\<rparr>)
                | (Some e, h', d') \<Rightarrow> (Inl e, h', sc\<lparr>draggable := Some d'\<rparr>))))"
| "Scene_mouse_action ops LEFT_CLICK_UP pos (h, sc) =
     (Inr None, h, sc\<lparr>draggable := None, selected := None\<rparr>)"
| "Scene_mouse_action ops RIGHT_CLICK_DOWN pos (h, sc) = (Inr None, h, sc)"

text \<open>
  The event loop delivers one event at a time. A run of events applies
  \<^verbatim>\<open>mouse_action\<close> to each in turn, the returned flags dropped, and ends at the
  first exception.
\<close>

fun run_events ::
  "'f float_ops \<Rightarrow> (MOUSE_ACTION \<times> vref) list \<Rightarrow> 'f heap \<times> Scene \<Rightarrow> 'f heap \<times> Scene" where
  "run_events ops [] st = st"
| "run_events ops ((a, p) # es) st =
     (case Scene_mouse_action ops a p st of
        (Inl e, st') \<Rightarrow> st'
      | (Inr r, st') \<Rightarrow> run_events ops es st')"

section \<open>Buttons and the toolbar\<close>

text \<open>
  \<^verbatim>\<open>class Button\<close> (lines 35 to 65). The constructor leaves \<^verbatim>\<open>pos\<close> at
  \<^verbatim>\<open>None\<close> until \<^verbatim>\<open>set_pos\<close> is called, and does not store its
  \<^verbatim>\<open>id\<close> argument. The \<^verbatim>\<open>vec2\<close> of a button is created inside
  \<^verbatim>\<open>Toolbar._create_button_positions\<close> and nothing in the program mutates
  it or hands it on, so the button holds it by value.
\<close>

record 'f Button =
  b_pos :: "'f vec2 option"
  b_size :: "'f number"
  b_color :: Color
  clicked :: bool
  b_selected :: bool

definition Button_init :: "string \<Rightarrow> 'f number \<Rightarrow> Color \<Rightarrow> 'f Button" where
  "Button_init ident sz col =
     \<lparr>b_pos = None, b_size = sz, b_color = col, clicked = False, b_selected = False\<rparr>"

definition Button_set_pos :: "'f Button \<Rightarrow> 'f vec2 \<Rightarrow> 'f Button" where
  "Button_set_pos b p = b\<lparr>b_pos := Some p\<rparr>"

text \<open>
  The chained comparison \<^verbatim>\<open>lo <= v <= lo + size\<close>: the sum is evaluated, and
  can raise, only when the first comparison holds.
\<close>

definition chained_le ::
  "'f float_ops \<Rightarrow> 'f number \<Rightarrow> 'f number \<Rightarrow> 'f number \<Rightarrow> error + bool" where
  "chained_le ops lo v sz =
     (if num_le ops lo v
      then and_then (num_add ops lo sz) (\<lambda>hi. Inr (num_le ops v hi))
      else Inr False)"

text \<open>
  \<^verbatim>\<open>Button.hit_test\<close> (lines 46 to 50). Reading \<^verbatim>\<open>self.pos.x\<close> while
  \<^verbatim>\<open>pos\<close> is still \<^verbatim>\<open>None\<close> raises \<^verbatim>\<open>AttributeError\<close>; \<^verbatim>\<open>and\<close>
  evaluates its second operand only when the first holds.
\<close>

definition Button_hit_test :: "'f float_ops \<Rightarrow> 'f Button \<Rightarrow> 'f vec2 \<Rightarrow> error + bool" where
  "Button_hit_test ops b p =
     (case b_pos b of
        None \<Rightarrow> Inl AttributeError
      | Some bp \<Rightarrow>
          and_then (chained_le ops (x bp) (x p) (b_size b))
            (\<lambda>in_x. if in_x then chained_le ops (y bp) (y p) (b_size b) else Inr False))"

definition Button_click :: "'f Button \<Rightarrow> 'f Button" where
  "Button_click b = b\<lparr>b_selected := \<not> b_selected b\<rparr>"

text \<open>
  \<^verbatim>\<open>class Toolbar\<close> (lines 131 to 164). The buttons of a toolbar are distinct
  objects owned by its list (\<^verbatim>\<open>DrawArea.__init__\<close> constructs them in place),
  so the list holds them by value and a button is named by its index.
\<close>

record 'f Toolbar =
  t_pos :: "'f vec2"
  buttons :: "'f Button list"

text \<open>
  \<^verbatim>\<open>Toolbar._create_button_positions\<close> (lines 138 to 149). The arithmetic is on
  Python integers, \<^verbatim>\<open>//\<close> is floor division.
\<close>

definition Toolbar_create_button_positions :: "'f Toolbar \<Rightarrow> 'f Toolbar" where
  "Toolbar_create_button_positions tb =
     (let button_count = int (length (buttons tb));
          button_width = BUTTON_SIZE * button_count + BUTTON_MARGIN * (button_count + 1);
          start_x = (WIDTH - button_width) div 2;
          y0 = (UI_TOP_BAR_HEIGHT - BUTTON_SIZE) div 2
      in tb\<lparr>buttons :=
           map (\<lambda>(i, btn).
                  Button_set_pos btn
                    \<lparr>x = PyInt (start_x + int i * (BUTTON_SIZE + BUTTON_MARGIN)),
                     y = PyInt y0\<rparr>)
               (enumerate 0 (buttons tb))\<rparr>)"

definition Toolbar_init :: "'f vec2 \<Rightarrow> 'f Button list \<Rightarrow> 'f Toolbar" where
  "Toolbar_init p btns = Toolbar_create_button_positions \<lparr>t_pos = p, buttons = btns\<rparr>"



section \<open>The draw area and its callbacks\<close>

text \<open>\<^verbatim>\<open>class DrawArea\<close> (lines 68 to 110).\<close>

record 'f DrawArea =
  width :: int
  height :: int
  scene :: Scene
  toolbar :: "'f Toolbar"

definition DrawArea_init :: "int \<Rightarrow> int \<Rightarrow> 'f DrawArea" where
  "DrawArea_init w hgt =
     \<lparr>width = w, height = hgt, scene = Scene_init,
      toolbar =
        Toolbar_init \<lparr>x = PyInt 0, y = PyInt (HEIGHT - UI_TOP_BAR_HEIGHT)\<rparr>
          [Button_init ''select'' (PyInt BUTTON_SIZE) (Color 200 200 200),
           Button_init ''delete'' (PyInt BUTTON_SIZE) (Color 200 200 200)]\<rparr>"

text \<open>
  The whole program state: the heap, the next unused address for a shape (which
  also stands for the fresh \<^verbatim>\<open>uuid.uuid4()\<close> of a new shape) and for a
  \<^verbatim>\<open>vec2\<close>, and the draw area.
\<close>

record 'f world =
  heap :: "'f heap"
  next_ref :: ref
  next_vref :: vref
  draw_area :: "'f DrawArea"

definition Shape_init :: "vref \<Rightarrow> 'f number \<Rightarrow> Color \<Rightarrow> nat \<Rightarrow> 'f Shape" where
  "Shape_init p r col ident = \<lparr>s_pos = p, radius = r, s_color = col, shape_id = ident\<rparr>"

text \<open>The module-level \<^verbatim>\<open>color = Color(0, 255, 0)\<close> (line 269).\<close>

definition color :: Color where "color = Color 0 255 0"


definition DrawArea_remove_shape :: "'f DrawArea \<Rightarrow> ref \<Rightarrow> error option \<times> 'f DrawArea" where
  "DrawArea_remove_shape da r =
     (let (e, sc) = Scene_remove_shape (scene da) r in (e, da\<lparr>scene := sc\<rparr>))"


text \<open>\<^verbatim>\<open>pos = vec2(x, y)\<close> in a callback: a new object at an unused address.\<close>

definition new_vec2 :: "'f vec2 \<Rightarrow> 'f world \<Rightarrow> vref \<times> 'f world" where
  "new_vec2 v w =
     (next_vref w,
      w\<lparr>heap := (heap w)\<lparr>vecs := (vecs (heap w))(next_vref w := v)\<rparr>,
        next_vref := Suc (next_vref w)\<rparr>)"

text \<open>\<^verbatim>\<open>self.scene.mouse_action(action, pos)\<close> on the scene of the draw area.\<close>

definition scene_mouse_action ::
  "'f float_ops \<Rightarrow> MOUSE_ACTION \<Rightarrow> vref \<Rightarrow> 'f world \<Rightarrow> error option \<times> 'f world" where
  "scene_mouse_action ops a pos w =
     (case Scene_mouse_action ops a pos (heap w, scene (draw_area w)) of
        (r, h', sc') \<Rightarrow>
          ((case r of Inl e \<Rightarrow> Some e | Inr v \<Rightarrow> None),
           w\<lparr>heap := h', draw_area := (draw_area w)\<lparr>scene := sc'\<rparr>\<rparr>))"


text \<open>
  \<^verbatim>\<open>DrawArea.cursor_pos_callback\<close> (lines 107 to 110); \<open>left_held\<close> is
  \<^verbatim>\<open>glfw.get_mouse_button(window, glfw.MOUSE_BUTTON_LEFT) == glfw.PRESS\<close>.
\<close>

definition DrawArea_cursor_pos_callback ::
  "'f float_ops \<Rightarrow> bool \<Rightarrow> 'f \<Rightarrow> 'f \<Rightarrow> 'f world \<Rightarrow> error option \<times> 'f world" where
  "DrawArea_cursor_pos_callback ops left_held xpos ypos w0 =
     (if left_held then
        (case new_vec2 \<lparr>x = PyFloat xpos, y = PyFloat ypos\<rparr> w0 of
           (pos, w) \<Rightarrow> scene_mouse_action ops LEFT_CLICK_DRAG pos w)
      else (None, w0))"

section \<open>The session of \<^verbatim>\<open>main_app/session/session.py\<close>\<close>

text \<open>
  \<^verbatim>\<open>class Session\<close> holds a scene and forwards each call to it. The scene
  class it imports (\<^verbatim>\<open>main_app/session/scene/scene.py\<close>) is not among the source
  files, so the scene's own \<^verbatim>\<open>remove_shape\<close> is a parameter here.
\<close>

record 's Session =
  session_scene :: 's

definition Session_remove_shape ::
  "('s \<Rightarrow> ref \<Rightarrow> error option \<times> 's) \<Rightarrow> 's Session \<Rightarrow> ref \<Rightarrow> error option \<times> 's Session" where
  "Session_remove_shape scene_remove_shape ss r =
     (let (e, sc) = scene_remove_shape (session_scene ss) r
      in (e, ss\<lparr>session_scene := sc\<rparr>))"

section \<open>Notions used to state the properties\<close>

text \<open>
  The three states of the interaction state machine, read off the scene: idle when
  nothing is selected, selected when a shape is selected and no drag record
  exists, dragging when both exist.
\<close>

datatype interaction_state = Idle | Selected | Dragging

definition state_of :: "Scene \<Rightarrow> interaction_state" where
  "state_of sc =
     (case selected sc of
        None \<Rightarrow> Idle
      | Some s \<Rightarrow> (case draggable sc of None \<Rightarrow> Selected | Some d \<Rightarrow> Dragging))"

text \<open>
  The session invariant: a drag record exists only together with a selection, and
  it refers to the selected shape.
\<close>

definition session_inv :: "Scene \<Rightarrow> bool" where
  "session_inv sc =
     (case draggable sc of None \<Rightarrow> True | Some d \<Rightarrow> selected sc = Some (shape d))"

text \<open>
  The free space to the left and to the right of the row of buttons inside the
  container of width \<^verbatim>\<open>WIDTH\<close>, for buttons at integer positions as the layout
  sets them: the row reaches from the left edge of the first button to the right
  edge of the last one, and it is centred when the two gaps are equal. There are no
  gaps to speak of for an empty toolbar or while a position is unset.
\<close>

definition int_x :: "'f vec2 option \<Rightarrow> int option" where
  "int_x p = (case p of
                Some v \<Rightarrow> (case x v of PyInt i \<Rightarrow> Some i | PyFloat f \<Rightarrow> None)
              | None \<Rightarrow> None)"

definition left_gap :: "'f Toolbar \<Rightarrow> int option" where
  "left_gap tb =
     (if buttons tb = [] then None else int_x (b_pos (hd (buttons tb))))"

definition right_gap :: "'f Toolbar \<Rightarrow> int option" where
  "right_gap tb =
     (if buttons tb = [] then None
      else map_option (\<lambda>i. WIDTH - (i + BUTTON_SIZE)) (int_x (b_pos (last (buttons tb)))))"

text \<open>
  The states the scene can be in: the fresh scene of \<^verbatim>\<open>Scene.__init__\<close> over
  any heap, and from a state every state that one call of \<^verbatim>\<open>add_shape\<close>,
  \<^verbatim>\<open>remove_shape\<close> or \<^verbatim>\<open>mouse_action\<close> leads to, whether the call
  raises or not and whatever the float arithmetic is, or any change of the heap (the
  construction of a new object is one).
\<close>

inductive reachable :: "'f heap \<times> Scene \<Rightarrow> bool" where
  fresh: "reachable (h, Scene_init)"
| add_shape: "reachable (h, sc) \<Longrightarrow> reachable (h, Scene_add_shape sc r)"
| remove_shape: "reachable (h, sc) \<Longrightarrow> reachable (h, snd (Scene_remove_shape sc r))"
| mouse_action: "reachable st \<Longrightarrow> reachable (snd (Scene_mouse_action ops a p st))"
| heap_update: "reachable (h, sc) \<Longrightarrow> reachable (h', sc)"

section \<open>Concrete scenes\<close>

text \<open>
  The scenarios below are evaluated in an arithmetic that does not round: floats
  are real numbers. Their coordinates are small integers, on which doubles compute
  the same differences, squares and sums, and the same outcome of every comparison
  made (no square root compared there is anywhere near the radius of 40).
\<close>

definition ideal_ops :: "real float_ops" where
  "ideal_ops =
     \<lparr>float_of_int = (\<lambda>i. Inr (of_int i)),
      float_add = (\<lambda>a b. a + b),
      float_sub = (\<lambda>a b. a - b),
      float_pow_2 = (\<lambda>a. Inr (a * a)),
      float_pow_half = (\<lambda>a. Inr (sqrt a)),
      float_le = (\<lambda>a b. a \<le> b),
      float_le_int = (\<lambda>a i. a \<le> of_int i),
      int_le_float = (\<lambda>i a. of_int i \<le> a)\<rparr>"

text \<open>
  Two overlapping circles of radius 40, A at address 0 with centre (55, 55) (the
  shape \<^verbatim>\<open>main.py\<close> adds at start-up) and B at address 1 with centre (70, 55).
  The points of the events are the objects at the addresses 2 to 5: (60, 60), which
  lies in both circles, (70, 70), (80, 85), and (200, 200), which lies in neither.
\<close>

definition shape_A :: "real Shape" where
  "shape_A = Shape_init 0 (PyInt 40) color 0"

definition shape_B :: "real Shape" where
  "shape_B = Shape_init 1 (PyInt 40) color 1"

definition demo_P :: vref where "demo_P = 2"
definition demo_Q :: vref where "demo_Q = 3"
definition demo_R :: vref where "demo_R = 4"
definition demo_far :: vref where "demo_far = 5"

definition demo_heap :: "real heap" where
  "demo_heap =
     \<lparr>vecs = (\<lambda>v. \<lparr>x = PyInt 55, y = PyInt 55\<rparr>)
         (1 := \<lparr>x = PyInt 70, y = PyInt 55\<rparr>,
          2 := \<lparr>x = PyFloat 60, y = PyFloat 60\<rparr>,
          3 := \<lparr>x = PyFloat 70, y = PyFloat 70\<rparr>,
          4 := \<lparr>x = PyFloat 80, y = PyFloat 85\<rparr>,
          5 := \<lparr>x = PyFloat 200, y = PyFloat 200\<rparr>),
      objs = (\<lambda>r. shape_A)(1 := shape_B)\<rparr>"

definition demo_scene :: Scene where
  "demo_scene = Scene_add_shape (Scene_add_shape Scene_init 0) 1"

text \<open>
  The scenario of the spec: the scene holds A alone; a press at (60, 60), a drag to
  (70, 70) and a drag to (80, 85). In \<open>pressed_then_dragged\<close> the press is
  followed by a single drag to (80, 85).
\<close>

definition one_shape_scene :: Scene where
  "one_shape_scene = Scene_add_shape Scene_init 0"

definition dragging_state :: "real heap \<times> Scene" where
  "dragging_state =
     run_events ideal_ops
       [(LEFT_CLICK_DOWN, demo_P), (LEFT_CLICK_DRAG, demo_Q), (LEFT_CLICK_DRAG, demo_R)]
       (demo_heap, one_shape_scene)"

definition pressed_then_dragged :: "real heap \<times> Scene" where
  "pressed_then_dragged =
     run_events ideal_ops
       [(LEFT_CLICK_DOWN, demo_P), (LEFT_CLICK_DRAG, demo_R)]
       (demo_heap, one_shape_scene)"

text \<open>The same three events on the scene that holds A and B.\<close>

definition dragging_two :: "real heap \<times> Scene" where
  "dragging_two =
     run_events ideal_ops
       [(LEFT_CLICK_DOWN, demo_P), (LEFT_CLICK_DRAG, demo_Q), (LEFT_CLICK_DRAG, demo_R)]
       (demo_heap, demo_scene)"




section \<open>Auxiliary facts\<close>

lemma and_then_Inr [simp]: "and_then (Inr v) f = f v"
  by (simp add: and_then_def)

lemma and_then_Inl [simp]: "and_then (Inl e) f = Inl e"
  by (simp add: and_then_def)

lemma ideal_ops_simps [simp]:
  "float_of_int ideal_ops i = Inr (of_int i)"
  "float_add ideal_ops a b = a + b"
  "float_sub ideal_ops a b = a - b"
  "float_pow_2 ideal_ops a = Inr (a * a)"
  "float_pow_half ideal_ops a = Inr (sqrt a)"
  "float_le ideal_ops a b = (a \<le> b)"
  "float_le_int ideal_ops a i = (a \<le> of_int i)"
  "int_le_float ideal_ops i a = (of_int i \<le> a)"
  by (simp_all add: ideal_ops_def)

lemma sqrt_le_nonneg: "0 \<le> b \<Longrightarrow> (sqrt a \<le> b) = (a \<le> b * b)"
  by (auto intro: real_le_lsqrt dest: sqrt_le_D simp: power2_eq_square)

lemma find_containing_skip:
  "\<forall>r\<in>set pre. Shape_contains ops h r p = Inr False \<Longrightarrow>
   find_containing ops h (pre @ rs) p = find_containing ops h rs p"
  by (induction pre) auto

lemma find_containing_None:
  "\<forall>r\<in>set rs. Shape_contains ops h r p = Inr False \<Longrightarrow> find_containing ops h rs p = Inr None"
  by (induction rs) auto

lemma list_remove_absent: "v \<notin> set xs \<Longrightarrow> list_remove xs v = Inl ValueError"
  by (induction xs) auto

lemma list_remove_first:
  "v \<notin> set pre \<Longrightarrow> list_remove (pre @ v # post) v = Inr (pre @ post)"
  by (induction pre) auto

lemma list_remove_remove1: "v \<in> set xs \<Longrightarrow> list_remove xs v = Inr (remove1 v xs)"
  by (induction xs) auto

lemma demo_vecs:
  "vecs demo_heap 0 = \<lparr>x = PyInt 55, y = PyInt 55\<rparr>"
  "vecs demo_heap (Suc 0) = \<lparr>x = PyInt 70, y = PyInt 55\<rparr>"
  "vecs demo_heap demo_P = \<lparr>x = PyFloat 60, y = PyFloat 60\<rparr>"
  "vecs demo_heap demo_Q = \<lparr>x = PyFloat 70, y = PyFloat 70\<rparr>"
  "vecs demo_heap demo_R = \<lparr>x = PyFloat 80, y = PyFloat 85\<rparr>"
  "vecs demo_heap demo_far = \<lparr>x = PyFloat 200, y = PyFloat 200\<rparr>"
  by (simp_all add: demo_heap_def demo_P_def demo_Q_def demo_R_def demo_far_def)

lemma demo_objs:
  "objs demo_heap 0 = shape_A" "objs demo_heap (Suc 0) = shape_B"
  "s_pos shape_A = 0" "s_pos shape_B = Suc 0"
  "radius shape_A = PyInt 40" "radius shape_B = PyInt 40"
  by (simp_all add: demo_heap_def shape_A_def shape_B_def Shape_init_def)

lemma demo_contains:
  "Shape_contains ideal_ops demo_heap 0 demo_P = Inr True"
  "Shape_contains ideal_ops demo_heap (Suc 0) demo_P = Inr True"
  "Shape_contains ideal_ops demo_heap 0 demo_far = Inr False"
  "Shape_contains ideal_ops demo_heap (Suc 0) demo_far = Inr False"
  by (simp_all add: Shape_contains_def demo_vecs demo_objs sqrt_le_nonneg)

lemma demo_scene_simps:
  "shapes demo_scene = [0, 1]" "selected demo_scene = None" "draggable demo_scene = None"
  by (simp_all add: demo_scene_def Scene_add_shape_def Scene_init_def)

lemma draggable_work_shape:
  "draggable_work ops h d pos = (e, h', d') \<Longrightarrow> shape d' = shape d"
  by (auto simp: draggable_work_def Let_def split: sum.splits)

lemma mouse_action_inv:
  "session_inv sc \<Longrightarrow> session_inv (snd (snd (Scene_mouse_action ops a p (h, sc))))"
proof (cases a)
  case LEFT_CLICK_DRAG
  assume inv: "session_inv sc"
  show ?thesis
  proof (cases "selected sc")
    case None
    with inv LEFT_CLICK_DRAG show ?thesis by simp
  next
    case (Some sel)
    show ?thesis
    proof (cases "draggable sc")
      case None
      with Some LEFT_CLICK_DRAG show ?thesis
        by (simp add: session_inv_def draggable_init_def)
    next
      case (Some d)
      obtain e h' d' where w: "draggable_work ops h d p = (e, h', d')"
        by (cases "draggable_work ops h d p") auto
      then have "shape d' = shape d" by (rule draggable_work_shape)
      with inv Some \<open>selected sc = Some sel\<close> LEFT_CLICK_DRAG w show ?thesis
        by (cases e) (simp_all add: session_inv_def)
    qed
  qed
qed (auto simp: session_inv_def split: option.splits sum.splits)

lemma add_shape_inv: "session_inv sc \<Longrightarrow> session_inv (Scene_add_shape sc r)"
  by (simp add: session_inv_def Scene_add_shape_def split: option.splits)

lemma remove_shape_inv: "session_inv sc \<Longrightarrow> session_inv (snd (Scene_remove_shape sc r))"
  by (simp add: session_inv_def Scene_remove_shape_def split: sum.splits option.splits)

lemma reachable_inv: "reachable st \<Longrightarrow> session_inv (snd st)"
proof (induction rule: reachable.induct)
  case (fresh h)
  show ?case by (simp add: session_inv_def Scene_init_def)
next
  case (add_shape h sc r)
  then show ?case by (simp add: add_shape_inv)
next
  case (remove_shape h sc r)
  then show ?case by (simp add: remove_shape_inv)
next
  case (mouse_action st ops a p)
  obtain h sc where "st = (h, sc)" by (cases st)
  with mouse_action.IH show ?case by (simp add: mouse_action_inv)
next
  case (heap_update h sc h')
  then show ?case by simp
qed

lemma reachable_run_events: "reachable st \<Longrightarrow> reachable (run_events ops es st)"
proof (induction es arbitrary: st)
  case Nil
  then show ?case by simp
next
  case (Cons e es)
  obtain a p where e: "e = (a, p)" by (cases e)
  obtain r st' where s: "Scene_mouse_action ops a p st = (r, st')"
    by (cases "Scene_mouse_action ops a p st")
  from Cons.prems have "reachable (snd (Scene_mouse_action ops a p st))"
    by (rule reachable.mouse_action)
  with s have r: "reachable st'" by simp
  show ?case
  proof (cases r)
    case (Inl err)
    with e s r show ?thesis by simp
  next
    case (Inr v)
    with e s Cons.IH [OF r] show ?thesis by simp
  qed
qed

lemma one_shape_scene_simps:
  "shapes one_shape_scene = [0]" "selected one_shape_scene = None"
  "draggable one_shape_scene = None"
  by (simp_all add: one_shape_scene_def Scene_add_shape_def Scene_init_def)

lemma pressed_then_dragged_eq:
  "pressed_then_dragged =
     (demo_heap,
      \<lparr>shapes = [0], draggable = Some \<lparr>current_pos = demo_R, shape = 0\<rparr>, selected = Some 0\<rparr>)"
  by (simp add: pressed_then_dragged_def one_shape_scene_simps demo_contains
        draggable_init_def)

lemma dragging_state_eq:
  "dragging_state =
     (demo_heap\<lparr>vecs := (vecs demo_heap)(0 := \<lparr>x = PyFloat 65, y = PyFloat 70\<rparr>)\<rparr>,
      \<lparr>shapes = [0], draggable = Some \<lparr>current_pos = demo_R, shape = 0\<rparr>, selected = Some 0\<rparr>)"
  by (simp add: dragging_state_def one_shape_scene_simps demo_contains
        draggable_init_def draggable_work_def vec2_sub_def vec2_translate_def
        Shape_translate_def demo_vecs demo_objs)

lemma dragging_two_eq:
  "dragging_two =
     (demo_heap\<lparr>vecs := (vecs demo_heap)(0 := \<lparr>x = PyFloat 65, y = PyFloat 70\<rparr>)\<rparr>,
      \<lparr>shapes = [0, 1], draggable = Some \<lparr>current_pos = demo_R, shape = 0\<rparr>,
       selected = Some 0\<rparr>)"
  by (simp add: dragging_two_def demo_scene_simps demo_contains
        draggable_init_def draggable_work_def vec2_sub_def vec2_translate_def
        Shape_translate_def demo_vecs demo_objs)

lemma draggable_work_ok:
  assumes "num_sub ops (x (vecs h p)) (x (vecs h (current_pos d))) = Inr dx"
    and "num_sub ops (y (vecs h p)) (y (vecs h (current_pos d))) = Inr dy"
    and "num_add ops (x (vecs h (s_pos (objs h (shape d))))) dx = Inr nx"
    and "num_add ops (y (vecs h (s_pos (objs h (shape d))))) dy = Inr ny"
  shows "draggable_work ops h d p
      = (None, h\<lparr>vecs := (vecs h)(s_pos (objs h (shape d)) := \<lparr>x = nx, y = ny\<rparr>)\<rparr>,
         d\<lparr>current_pos := p\<rparr>)"
  using assms
  by (simp add: draggable_work_def vec2_sub_def Shape_translate_def vec2_translate_def)

section \<open>Hit-testing at press time\<close>

text \<open>
  C1, as the spec states it: when two overlapping shapes A (inserted first) and B
  (inserted second) both contain the point P, the press-time hit-test selects B.
  The loop of \<^verbatim>\<open>Scene.mouse_action\<close> walks \<^verbatim>\<open>self.shapes\<close> front to back,
  so on the scene [A, B] it selects A: the statement fails at the concrete scene
  above.
\<close>

theorem topmost_wins_counterexample:
  "Shape_contains ideal_ops demo_heap 0 demo_P = Inr True \<and>
   Shape_contains ideal_ops demo_heap 1 demo_P = Inr True \<and>
   shapes demo_scene = [0, 1] \<and>
   selected (snd (snd (Scene_mouse_action ideal_ops LEFT_CLICK_DOWN demo_P
       (demo_heap, demo_scene)))) = Some 0 \<and>
   selected (snd (snd (Scene_mouse_action ideal_ops LEFT_CLICK_DOWN demo_P
       (demo_heap, demo_scene)))) \<noteq> Some 1"
  using demo_contains by (simp add: demo_scene_simps)

text \<open>
  C1, amended: with no selection, a press tests the shapes in insertion order and
  selects the first one that contains the point, that is the earliest inserted one
  (whatever follows it in the list, containing the point or not), reporting
  \<^verbatim>\<open>True\<close>; when no shape contains the point nothing changes and the call
  returns \<^verbatim>\<open>None\<close>. This holds for every float arithmetic.
\<close>

theorem press_selects_first_inserted:
  assumes "selected sc = None"
  shows "(shapes sc = pre @ a # post \<longrightarrow> Shape_contains ops h a p = Inr True \<longrightarrow>
            (\<forall>r\<in>set pre. Shape_contains ops h r p = Inr False) \<longrightarrow>
            Scene_mouse_action ops LEFT_CLICK_DOWN p (h, sc)
              = (Inr (Some True), h, sc\<lparr>selected := Some a\<rparr>)) \<and>
         ((\<forall>r\<in>set (shapes sc). Shape_contains ops h r p = Inr False) \<longrightarrow>
            Scene_mouse_action ops LEFT_CLICK_DOWN p (h, sc) = (Inr None, h, sc))"
proof (intro conjI impI)
  assume "shapes sc = pre @ a # post" "Shape_contains ops h a p = Inr True"
    "\<forall>r\<in>set pre. Shape_contains ops h r p = Inr False"
  then have "find_containing ops h (shapes sc) p = Inr (Some a)"
    by (simp add: find_containing_skip)
  with assms show "Scene_mouse_action ops LEFT_CLICK_DOWN p (h, sc)
      = (Inr (Some True), h, sc\<lparr>selected := Some a\<rparr>)"
    by simp
next
  assume "\<forall>r\<in>set (shapes sc). Shape_contains ops h r p = Inr False"
  then have "find_containing ops h (shapes sc) p = Inr None"
    by (rule find_containing_None)
  with assms show "Scene_mouse_action ops LEFT_CLICK_DOWN p (h, sc) = (Inr None, h, sc)"
    by simp
qed

theorem press_selects_first_inserted_witness:
  "selected demo_scene = None \<and> shapes demo_scene = [] @ 0 # [1] \<and>
   Shape_contains ideal_ops demo_heap 0 demo_P = Inr True \<and>
   Shape_contains ideal_ops demo_heap 1 demo_P = Inr True \<and>
   Scene_mouse_action ideal_ops LEFT_CLICK_DOWN demo_P (demo_heap, demo_scene)
     = (Inr (Some True), demo_heap, demo_scene\<lparr>selected := Some 0\<rparr>) \<and>
   Scene_mouse_action ideal_ops LEFT_CLICK_DOWN demo_far (demo_heap, demo_scene)
     = (Inr None, demo_heap, demo_scene)"
proof -
  have s: "selected demo_scene = None" by (simp add: demo_scene_simps)
  have far: "\<forall>r\<in>set (shapes demo_scene). Shape_contains ideal_ops demo_heap r demo_far = Inr False"
    by (simp add: demo_scene_simps demo_contains)
  show ?thesis
    using press_selects_first_inserted [OF s, of "[]" 0 "[1]" ideal_ops demo_heap demo_P]
      press_selects_first_inserted [OF s, of "[]" 0 "[1]" ideal_ops demo_heap demo_far]
      demo_contains far
    by (simp add: demo_scene_simps del: Scene_mouse_action.simps)
qed

section \<open>Removing a shape\<close>

text \<open>
  C2, as the spec states it: removing a shape that is not in the registry is a
  no-op that raises nothing. \<^verbatim>\<open>list.remove\<close> raises \<^verbatim>\<open>ValueError\<close> for
  an absent element and \<^verbatim>\<open>Scene.remove_shape\<close> does not catch it: on the empty
  scene the call ends with that exception.
\<close>

theorem remove_absent_counterexample:
  "Scene_remove_shape Scene_init 0 = (Some ValueError, Scene_init)"
  by (simp add: Scene_remove_shape_def Scene_init_def)

text \<open>
  C2, amended: removing a shape that is not in the registry raises
  \<^verbatim>\<open>ValueError\<close> and leaves the scene, hence the sequence and its length, as it
  was; when the shape is present, exactly its first occurrence is removed and
  nothing is raised.
\<close>

theorem remove_shape_first_or_ValueError:
  "(r \<notin> set (shapes sc) \<longrightarrow> Scene_remove_shape sc r = (Some ValueError, sc)) \<and>
   (r \<in> set (shapes sc) \<longrightarrow>
      (\<exists>pre post. shapes sc = pre @ r # post \<and> r \<notin> set pre \<and>
         Scene_remove_shape sc r = (None, sc\<lparr>shapes := pre @ post\<rparr>)))"
proof (intro conjI impI)
  assume "r \<notin> set (shapes sc)"
  then show "Scene_remove_shape sc r = (Some ValueError, sc)"
    by (simp add: Scene_remove_shape_def list_remove_absent)
next
  assume "r \<in> set (shapes sc)"
  then obtain pre post where sp: "shapes sc = pre @ r # post" "r \<notin> set pre"
    by (auto dest: split_list_first)
  then have "Scene_remove_shape sc r = (None, sc\<lparr>shapes := pre @ post\<rparr>)"
    by (simp add: Scene_remove_shape_def list_remove_first)
  with sp show "\<exists>pre post. shapes sc = pre @ r # post \<and> r \<notin> set pre \<and>
         Scene_remove_shape sc r = (None, sc\<lparr>shapes := pre @ post\<rparr>)"
    by blast
qed

theorem remove_shape_first_or_ValueError_witness:
  "Scene_remove_shape demo_scene 7 = (Some ValueError, demo_scene) \<and>
   Scene_remove_shape (Scene_add_shape demo_scene 0) 0
     = (None, (Scene_add_shape demo_scene 0)\<lparr>shapes := [1, 0]\<rparr>)"
proof -
  have a: "7 \<notin> set (shapes demo_scene)" by (simp add: demo_scene_simps)
  have b: "shapes (Scene_add_shape demo_scene 0) = [0, 1, 0]"
    by (simp add: Scene_add_shape_def demo_scene_simps)
  then have c: "0 \<in> set (shapes (Scene_add_shape demo_scene 0))" by simp
  from remove_shape_first_or_ValueError [of 7 demo_scene] a
  have "Scene_remove_shape demo_scene 7 = (Some ValueError, demo_scene)" by blast
  moreover from remove_shape_first_or_ValueError [of 0 "Scene_add_shape demo_scene 0"] c
  obtain pre post where pp: "shapes (Scene_add_shape demo_scene 0) = pre @ 0 # post" "0 \<notin> set pre"
    "Scene_remove_shape (Scene_add_shape demo_scene 0) 0
       = (None, (Scene_add_shape demo_scene 0)\<lparr>shapes := pre @ post\<rparr>)" by blast
  from pp(1,2) b have "pre = []" by (cases pre) auto
  with pp(1) b have "post = [1, 0]" by simp
  with \<open>pre = []\<close> pp(3) have "Scene_remove_shape (Scene_add_shape demo_scene 0) 0
     = (None, (Scene_add_shape demo_scene 0)\<lparr>shapes := [1, 0]\<rparr>)" by simp
  ultimately show ?thesis by simp
qed

text \<open>
  C3, as the spec states it: removing the shape that is selected or dragged clears
  the selection and the drag record. \<^verbatim>\<open>Scene.remove_shape\<close> only removes the
  shape from \<^verbatim>\<open>self.shapes\<close>: after the scenario of the spec, removing A
  leaves an empty registry while both the selection and the drag record still
  refer to A.
\<close>

theorem removal_keeps_selection_counterexample:
  "selected (snd dragging_state) = Some 0 \<and>
   draggable (snd dragging_state) = Some \<lparr>current_pos = demo_R, shape = 0\<rparr> \<and>
   fst (Scene_remove_shape (snd dragging_state) 0) = None \<and>
   shapes (snd (Scene_remove_shape (snd dragging_state) 0)) = [] \<and>
   selected (snd (Scene_remove_shape (snd dragging_state) 0)) = Some 0 \<and>
   draggable (snd (Scene_remove_shape (snd dragging_state) 0))
     = Some \<lparr>current_pos = demo_R, shape = 0\<rparr>"
  by (simp add: dragging_state_eq Scene_remove_shape_def)

text \<open>
  C3, amended: removing the selected shape raises nothing, takes the first
  occurrence of the shape out of the shape sequence and changes nothing else in the
  scene: every other entry stays in place, the selection still refers to the
  removed shape and the drag record is as it was. In a registry without
  duplicates the shape is then absent from the registry while the selection
  refers to it.
\<close>

theorem removal_leaves_session_state:
  assumes "selected sc = Some r" and "r \<in> set (shapes sc)"
  shows "Scene_remove_shape sc r = (None, sc\<lparr>shapes := remove1 r (shapes sc)\<rparr>) \<and>
         selected (snd (Scene_remove_shape sc r)) = Some r \<and>
         draggable (snd (Scene_remove_shape sc r)) = draggable sc \<and>
         (distinct (shapes sc) \<longrightarrow> r \<notin> set (shapes (snd (Scene_remove_shape sc r))))"
  using assms by (simp add: Scene_remove_shape_def list_remove_remove1)

theorem removal_leaves_session_state_witness:
  "selected (snd dragging_two) = Some 0 \<and> shapes (snd dragging_two) = [0, 1] \<and>
   Scene_remove_shape (snd dragging_two) 0
     = (None,
        \<lparr>shapes = [1], draggable = Some \<lparr>current_pos = demo_R, shape = 0\<rparr>,
         selected = Some 0\<rparr>)"
proof -
  have a: "selected (snd dragging_two) = Some 0" by (simp add: dragging_two_eq)
  have b: "0 \<in> set (shapes (snd dragging_two))" by (simp add: dragging_two_eq)
  from removal_leaves_session_state [OF a b]
  have "Scene_remove_shape (snd dragging_two) 0
          = (None, (snd dragging_two)\<lparr>shapes := remove1 0 (shapes (snd dragging_two))\<rparr>)"
    by blast
  then show ?thesis by (simp add: dragging_two_eq)
qed

text \<open>
  \<^verbatim>\<open>Session.remove_shape\<close> adds nothing of its own: over the scene of
  \<^verbatim>\<open>main.py\<close> it is that scene's \<^verbatim>\<open>remove_shape\<close>.
\<close>

lemma Session_remove_shape_Scene:
  "Session_remove_shape Scene_remove_shape ss r =
     (fst (Scene_remove_shape (session_scene ss) r),
      ss\<lparr>session_scene := snd (Scene_remove_shape (session_scene ss) r)\<rparr>)"
  by (simp add: Session_remove_shape_def split: prod.splits)

section \<open>Dragging\<close>

text \<open>
  C4, as the spec states it: dragging from the grab point G, where the shape was
  pressed, to G + D moves the centre by exactly D. The drag record is created by
  the first drag event and anchored at that event's position, so the movement of
  the pointer between the press and the first drag event never reaches the shape.
  A is pressed at (60, 60). When one drag event follows, at (80, 85), the centre
  stays at (55, 55); when the pointer passes through (70, 70) on its way, the
  centre ends at (65, 70). The pointer has moved by (20, 25) in both cases.
\<close>

theorem drag_from_press_counterexample:
  "Shape_contains ideal_ops demo_heap 0 demo_P = Inr True \<and>
   vecs demo_heap demo_P = \<lparr>x = PyFloat 60, y = PyFloat 60\<rparr> \<and>
   vecs demo_heap demo_R = \<lparr>x = PyFloat 80, y = PyFloat 85\<rparr> \<and>
   vecs demo_heap (s_pos (objs demo_heap 0)) = \<lparr>x = PyInt 55, y = PyInt 55\<rparr> \<and>
   selected (snd pressed_then_dragged) = Some 0 \<and>
   draggable (snd pressed_then_dragged) = Some \<lparr>current_pos = demo_R, shape = 0\<rparr> \<and>
   vecs (fst pressed_then_dragged) (s_pos (objs (fst pressed_then_dragged) 0))
     = \<lparr>x = PyInt 55, y = PyInt 55\<rparr> \<and>
   vecs (fst dragging_state) (s_pos (objs (fst dragging_state) 0))
     = \<lparr>x = PyFloat 65, y = PyFloat 70\<rparr> \<and>
   vecs (fst dragging_state) (s_pos (objs (fst dragging_state) 0))
     \<noteq> \<lparr>x = PyFloat 75, y = PyFloat 80\<rparr>"
  by (simp add: pressed_then_dragged_eq dragging_state_eq demo_contains demo_vecs demo_objs)

text \<open>
  C4, amended: with a shape \<open>s\<close> selected, the first drag event (no drag record
  yet) creates the drag record, anchored at the \<^verbatim>\<open>vec2\<close> of that event, and
  changes nothing else: no centre moves. A drag event at \<open>p\<close> with a drag record
  \<open>d\<close> computes the differences of the coordinates of \<open>p\<close> and of the record's
  last position, adds them to the coordinates of the centre object of the dragged
  shape, in place, and makes \<open>p\<close> the record's last position; the centre is
  never set to the pointer. The differences and sums are those of Python's
  numbers, rounded as the machine rounds them. And a press followed by the first
  drag event, wherever the two are, selects and anchors and leaves the heap as it
  was: the anchor is the position of the first drag event, not the pressed point.
\<close>

theorem drag_anchors_then_translates:
  "(selected sc = Some s \<longrightarrow> draggable sc = None \<longrightarrow>
      Scene_mouse_action ops LEFT_CLICK_DRAG g (h, sc)
        = (Inr None, h, sc\<lparr>draggable := Some \<lparr>current_pos = g, shape = s\<rparr>\<rparr>)) \<and>
   (selected sc = Some s \<longrightarrow> draggable sc = Some d \<longrightarrow>
    num_sub ops (x (vecs h p)) (x (vecs h (current_pos d))) = Inr dx \<longrightarrow>
    num_sub ops (y (vecs h p)) (y (vecs h (current_pos d))) = Inr dy \<longrightarrow>
    num_add ops (x (vecs h (s_pos (objs h (shape d))))) dx = Inr nx \<longrightarrow>
    num_add ops (y (vecs h (s_pos (objs h (shape d))))) dy = Inr ny \<longrightarrow>
      Scene_mouse_action ops LEFT_CLICK_DRAG p (h, sc)
        = (Inr None,
           h\<lparr>vecs := (vecs h)(s_pos (objs h (shape d)) := \<lparr>x = nx, y = ny\<rparr>)\<rparr>,
           sc\<lparr>draggable := Some (d\<lparr>current_pos := p\<rparr>)\<rparr>)) \<and>
   (selected sc = None \<longrightarrow> draggable sc = None \<longrightarrow>
    find_containing ops h (shapes sc) q = Inr (Some s) \<longrightarrow>
      run_events ops [(LEFT_CLICK_DOWN, q), (LEFT_CLICK_DRAG, g)] (h, sc)
        = (h, sc\<lparr>selected := Some s, draggable := Some \<lparr>current_pos = g, shape = s\<rparr>\<rparr>))"
proof (intro conjI impI)
  assume "selected sc = Some s" "draggable sc = None"
  then show "Scene_mouse_action ops LEFT_CLICK_DRAG g (h, sc)
          = (Inr None, h, sc\<lparr>draggable := Some \<lparr>current_pos = g, shape = s\<rparr>\<rparr>)"
    by (simp add: draggable_init_def)
next
  assume sel: "selected sc = Some s" and d: "draggable sc = Some d"
    and "num_sub ops (x (vecs h p)) (x (vecs h (current_pos d))) = Inr dx"
    and "num_sub ops (y (vecs h p)) (y (vecs h (current_pos d))) = Inr dy"
    and "num_add ops (x (vecs h (s_pos (objs h (shape d))))) dx = Inr nx"
    and "num_add ops (y (vecs h (s_pos (objs h (shape d))))) dy = Inr ny"
  then have "draggable_work ops h d p
      = (None, h\<lparr>vecs := (vecs h)(s_pos (objs h (shape d)) := \<lparr>x = nx, y = ny\<rparr>)\<rparr>,
         d\<lparr>current_pos := p\<rparr>)"
    by (simp add: draggable_work_ok)
  with sel d show "Scene_mouse_action ops LEFT_CLICK_DRAG p (h, sc)
          = (Inr None,
             h\<lparr>vecs := (vecs h)(s_pos (objs h (shape d)) := \<lparr>x = nx, y = ny\<rparr>)\<rparr>,
             sc\<lparr>draggable := Some (d\<lparr>current_pos := p\<rparr>)\<rparr>)"
    by simp
next
  assume "selected sc = None" "draggable sc = None"
    "find_containing ops h (shapes sc) q = Inr (Some s)"
  then show "run_events ops [(LEFT_CLICK_DOWN, q), (LEFT_CLICK_DRAG, g)] (h, sc)
        = (h, sc\<lparr>selected := Some s, draggable := Some \<lparr>current_pos = g, shape = s\<rparr>\<rparr>)"
    by (simp add: draggable_init_def)
qed

theorem drag_anchors_then_translates_witness:
  "Scene_mouse_action ideal_ops LEFT_CLICK_DRAG demo_Q
     (demo_heap, one_shape_scene\<lparr>selected := Some 0\<rparr>)
     = (Inr None, demo_heap,
        one_shape_scene\<lparr>selected := Some 0,
          draggable := Some \<lparr>current_pos = demo_Q, shape = 0\<rparr>\<rparr>) \<and>
   Scene_mouse_action ideal_ops LEFT_CLICK_DRAG demo_R
     (demo_heap, one_shape_scene\<lparr>selected := Some 0,
          draggable := Some \<lparr>current_pos = demo_Q, shape = 0\<rparr>\<rparr>)
     = (Inr None,
        demo_heap\<lparr>vecs := (vecs demo_heap)(0 := \<lparr>x = PyFloat 65, y = PyFloat 70\<rparr>)\<rparr>,
        one_shape_scene\<lparr>selected := Some 0,
          draggable := Some \<lparr>current_pos = demo_R, shape = 0\<rparr>\<rparr>) \<and>
   run_events ideal_ops [(LEFT_CLICK_DOWN, demo_P), (LEFT_CLICK_DRAG, demo_R)]
     (demo_heap, one_shape_scene)
     = (demo_heap,
        one_shape_scene\<lparr>selected := Some 0,
          draggable := Some \<lparr>current_pos = demo_R, shape = 0\<rparr>\<rparr>)"
proof -
  let ?sel = "one_shape_scene\<lparr>selected := Some 0\<rparr>"
  let ?d = "\<lparr>current_pos = demo_Q, shape = 0\<rparr>"
  let ?drg = "one_shape_scene\<lparr>selected := Some 0, draggable := Some ?d\<rparr>"
  have a: "selected ?sel = Some 0" by simp
  have b: "draggable ?sel = None" by (simp add: one_shape_scene_simps)
  have c: "selected ?drg = Some 0" by simp
  have e: "draggable ?drg = Some ?d" by simp
  have dx: "num_sub ideal_ops (x (vecs demo_heap demo_R)) (x (vecs demo_heap (current_pos ?d)))
              = Inr (PyFloat 10)"
    by (simp add: demo_vecs)
  have dy: "num_sub ideal_ops (y (vecs demo_heap demo_R)) (y (vecs demo_heap (current_pos ?d)))
              = Inr (PyFloat 15)"
    by (simp add: demo_vecs)
  have nx: "num_add ideal_ops (x (vecs demo_heap (s_pos (objs demo_heap (shape ?d))))) (PyFloat 10)
              = Inr (PyFloat 65)"
    by (simp add: demo_vecs demo_objs)
  have ny: "num_add ideal_ops (y (vecs demo_heap (s_pos (objs demo_heap (shape ?d))))) (PyFloat 15)
              = Inr (PyFloat 70)"
    by (simp add: demo_vecs demo_objs)
  have f: "find_containing ideal_ops demo_heap (shapes one_shape_scene) demo_P = Inr (Some 0)"
    by (simp add: one_shape_scene_simps demo_contains)
  from drag_anchors_then_translates [where sc = ?sel and s = 0 and ops = ideal_ops
      and g = demo_Q and h = demo_heap] a b
  have 1: "Scene_mouse_action ideal_ops LEFT_CLICK_DRAG demo_Q (demo_heap, ?sel)
             = (Inr None, demo_heap, ?drg)"
    by (simp del: Scene_mouse_action.simps)
  from drag_anchors_then_translates [where sc = ?drg and s = 0 and ops = ideal_ops
      and h = demo_heap and d = ?d and p = demo_R and dx = "PyFloat 10" and dy = "PyFloat 15"
      and nx = "PyFloat 65" and ny = "PyFloat 70"] c e dx dy nx ny
  have 2: "Scene_mouse_action ideal_ops LEFT_CLICK_DRAG demo_R (demo_heap, ?drg)
     = (Inr None,
        demo_heap\<lparr>vecs := (vecs demo_heap)(0 := \<lparr>x = PyFloat 65, y = PyFloat 70\<rparr>)\<rparr>,
        one_shape_scene\<lparr>selected := Some 0,
          draggable := Some \<lparr>current_pos = demo_R, shape = 0\<rparr>\<rparr>)"
    by (simp add: demo_objs del: Scene_mouse_action.simps)
  from drag_anchors_then_translates [where sc = one_shape_scene and s = 0 and ops = ideal_ops
      and h = demo_heap and q = demo_P and g = demo_R] f
  have 3: "run_events ideal_ops [(LEFT_CLICK_DOWN, demo_P), (LEFT_CLICK_DRAG, demo_R)]
     (demo_heap, one_shape_scene)
     = (demo_heap,
        one_shape_scene\<lparr>selected := Some 0,
          draggable := Some \<lparr>current_pos = demo_R, shape = 0\<rparr>\<rparr>)"
    by (simp add: one_shape_scene_simps del: Scene_mouse_action.simps run_events.simps)
  from 1 2 3 show ?thesis by (simp del: Scene_mouse_action.simps run_events.simps)
qed

section \<open>Release, press with a selection, and the session invariant\<close>

text \<open>
  C5: in every state a release discards the drag record and the selection and
  nothing else, so the state afterwards is idle; a second release directly after it
  changes nothing.
\<close>

theorem release_idempotent:
  "Scene_mouse_action ops LEFT_CLICK_UP p (h, sc)
     = (Inr None, h, sc\<lparr>draggable := None, selected := None\<rparr>) \<and>
   draggable (snd (snd (Scene_mouse_action ops LEFT_CLICK_UP p (h, sc)))) = None \<and>
   selected (snd (snd (Scene_mouse_action ops LEFT_CLICK_UP p (h, sc)))) = None \<and>
   state_of (snd (snd (Scene_mouse_action ops LEFT_CLICK_UP p (h, sc)))) = Idle \<and>
   Scene_mouse_action ops LEFT_CLICK_UP q (snd (Scene_mouse_action ops LEFT_CLICK_UP p (h, sc)))
     = (Inr None, snd (Scene_mouse_action ops LEFT_CLICK_UP p (h, sc)))"
  by (simp add: state_of_def)

text \<open>
  C10: while a shape is selected, a press handed to \<^verbatim>\<open>Scene.mouse_action\<close>
  changes neither the selection nor the drag record nor any shape, wherever the
  point lies, and returns \<^verbatim>\<open>None\<close>.
\<close>

theorem press_with_selection_noop:
  assumes "selected sc \<noteq> None"
  shows "Scene_mouse_action ops LEFT_CLICK_DOWN p (h, sc) = (Inr None, h, sc)"
  using assms by (cases "selected sc") simp_all

theorem press_with_selection_noop_witness:
  "selected (demo_scene\<lparr>selected := Some 0\<rparr>) \<noteq> None \<and>
   Shape_contains ideal_ops demo_heap 1 demo_P = Inr True \<and>
   Scene_mouse_action ideal_ops LEFT_CLICK_DOWN demo_P
       (demo_heap, demo_scene\<lparr>selected := Some 0\<rparr>)
     = (Inr None, demo_heap, demo_scene\<lparr>selected := Some 0\<rparr>)"
proof -
  have a: "selected (demo_scene\<lparr>selected := Some 0\<rparr>) \<noteq> None" by simp
  from press_with_selection_noop [OF a, of ideal_ops demo_P demo_heap] a demo_contains
  show ?thesis by (simp del: Scene_mouse_action.simps)
qed

lemma reachable_dragging_state: "reachable dragging_state"
  unfolding dragging_state_def one_shape_scene_def
  by (intro reachable_run_events reachable.add_shape reachable.fresh)

text \<open>
  C9: the fresh scene has no drag record, and in every state the scene can reach
  from it (through any sequence of press, drag and release events, with shapes
  added and removed in between) a drag record exists only together with a
  selection and refers to the selected shape.
\<close>

theorem drag_only_while_selected:
  "draggable Scene_init = None \<and>
   (reachable (h, sc) \<longrightarrow> draggable sc = Some d \<longrightarrow> selected sc = Some (shape d))"
proof (intro conjI impI)
  show "draggable Scene_init = None" by (simp add: Scene_init_def)
next
  assume "reachable (h, sc)" and d: "draggable sc = Some d"
  then have "session_inv sc" by (auto dest: reachable_inv)
  with d show "selected sc = Some (shape d)" by (simp add: session_inv_def)
qed

theorem drag_only_while_selected_witness:
  "reachable dragging_state \<and>
   draggable (snd dragging_state) = Some \<lparr>current_pos = demo_R, shape = 0\<rparr> \<and>
   selected (snd dragging_state) = Some 0"
proof -
  have r: "reachable (fst dragging_state, snd dragging_state)"
    using reachable_dragging_state by simp
  have d: "draggable (snd dragging_state) = Some \<lparr>current_pos = demo_R, shape = 0\<rparr>"
    by (simp add: dragging_state_eq)
  from drag_only_while_selected [of "fst dragging_state" "snd dragging_state"
      "\<lparr>current_pos = demo_R, shape = 0\<rparr>"] r d
  have "selected (snd dragging_state) = Some 0" by simp
  with reachable_dragging_state d show ?thesis by simp
qed

section \<open>The two hit-test predicates\<close>

text \<open>
  Both predicates only read their arguments and return a truth value or raise;
  they have no state to change. What they answer on floats is what the machine's
  arithmetic answers. On integers alone nothing rounds, and the button test is the
  membership in the closed intervals from the origin to origin plus size.
\<close>

lemma Button_hit_test_ints:
  assumes "b_pos b = Some \<lparr>x = PyInt bx, y = PyInt by\<rparr>" and "b_size b = PyInt sz"
  shows "Button_hit_test ops b \<lparr>x = PyInt px, y = PyInt py\<rparr>
           = Inr (px \<in> {bx .. bx + sz} \<and> py \<in> {by .. by + sz})"
  using assms by (auto simp: Button_hit_test_def chained_le_def)

section \<open>Toolbar layout\<close>

text \<open>
  What \<^verbatim>\<open>Toolbar.__init__\<close> computes, for any list of buttons: button \<open>i\<close>
  is placed at \<^verbatim>\<open>start_x + i * (BUTTON_SIZE + BUTTON_MARGIN)\<close>, so adjacent
  buttons are \<^verbatim>\<open>BUTTON_MARGIN\<close> apart; the gap to the right of the row is
  wider than the gap to its left by two margins.
\<close>

lemma Toolbar_init_length: "length (buttons (Toolbar_init tp bs)) = length bs"
  by (simp add: Toolbar_init_def Toolbar_create_button_positions_def Let_def)

lemma Toolbar_init_nth:
  assumes "i < length bs"
  shows "buttons (Toolbar_init tp bs) ! i =
     (bs ! i)\<lparr>b_pos := Some
        \<lparr>x = PyInt ((WIDTH - (BUTTON_SIZE * int (length bs) + BUTTON_MARGIN * (int (length bs) + 1))) div 2
                      + int i * (BUTTON_SIZE + BUTTON_MARGIN)),
         y = PyInt ((UI_TOP_BAR_HEIGHT - BUTTON_SIZE) div 2)\<rparr>\<rparr>"
  using assms
  by (simp add: Toolbar_init_def Toolbar_create_button_positions_def Let_def
        nth_enumerate_eq Button_set_pos_def)

lemma Toolbar_init_spacing:
  assumes "Suc i < length bs"
  shows "\<exists>a b. int_x (b_pos (buttons (Toolbar_init tp bs) ! i)) = Some a \<and>
               int_x (b_pos (buttons (Toolbar_init tp bs) ! Suc i)) = Some b \<and>
               b - (a + BUTTON_SIZE) = BUTTON_MARGIN"
  using assms by (simp add: Toolbar_init_nth int_x_def algebra_simps)

lemma Toolbar_init_gaps:
  assumes "bs \<noteq> []"
  shows "\<exists>l r. left_gap (Toolbar_init tp bs) = Some l \<and>
               right_gap (Toolbar_init tp bs) = Some r \<and>
               r - l = 2 * BUTTON_MARGIN"
proof -
  let ?n = "length bs"
  let ?tb = "Toolbar_init tp bs"
  let ?start = "(WIDTH - (BUTTON_SIZE * int ?n + BUTTON_MARGIN * (int ?n + 1))) div 2"
  from assms have n: "0 < ?n" by simp
  then have ne: "buttons ?tb \<noteq> []" using Toolbar_init_length [of tp bs] by auto
  have h: "hd (buttons ?tb) = buttons ?tb ! 0" using ne by (simp add: hd_conv_nth)
  have l: "last (buttons ?tb) = buttons ?tb ! (?n - 1)"
    using ne by (simp add: last_conv_nth Toolbar_init_length)
  from n have i: "?n - 1 < ?n" by simp
  from assms have k: "int (?n - 1) = int ?n - 1" by (cases bs) simp_all
  have p0: "int_x (b_pos (buttons ?tb ! 0)) = Some ?start"
    by (simp add: Toolbar_init_nth [OF n] int_x_def)
  have pl: "int_x (b_pos (buttons ?tb ! (?n - 1)))
              = Some (?start + (int ?n - 1) * (BUTTON_SIZE + BUTTON_MARGIN))"
    using Toolbar_init_nth [OF i, of tp] k by (simp add: int_x_def)
  have lg: "left_gap ?tb = Some ?start"
    unfolding left_gap_def h p0 using ne by simp
  have rg: "right_gap ?tb = Some (WIDTH
      - (?start + (int ?n - 1) * (BUTTON_SIZE + BUTTON_MARGIN) + BUTTON_SIZE))"
    unfolding right_gap_def l pl using ne by simp
  have "WIDTH - (?start + (int ?n - 1) * (BUTTON_SIZE + BUTTON_MARGIN) + BUTTON_SIZE) - ?start
            = 2 * BUTTON_MARGIN"
    unfolding WIDTH_def BUTTON_SIZE_def BUTTON_MARGIN_def by presburger
  with lg rg show ?thesis by blast
qed

lemma toolbar_buttons:
  "buttons (toolbar (DrawArea_init w hgt)) =
     [\<lparr>b_pos = Some \<lparr>x = PyInt 291, y = PyInt 6\<rparr>, b_size = PyInt 20,
        b_color = Color 200 200 200, clicked = False, b_selected = False\<rparr>,
      \<lparr>b_pos = Some \<lparr>x = PyInt 317, y = PyInt 6\<rparr>, b_size = PyInt 20,
        b_color = Color 200 200 200, clicked = False, b_selected = False\<rparr>]"
  by (simp add: DrawArea_init_def Toolbar_init_def Toolbar_create_button_positions_def
        Button_init_def Button_set_pos_def WIDTH_def HEIGHT_def UI_TOP_BAR_HEIGHT_def
        BUTTON_SIZE_def BUTTON_MARGIN_def)

lemma Toolbar_init_positions:
  "b \<in> set (buttons (Toolbar_init tp bs)) \<Longrightarrow> b_pos b \<noteq> None"
  by (auto simp: in_set_conv_nth Toolbar_init_length Toolbar_init_nth)

lemma Button_click_pos: "b_pos (Button_click b) = b_pos b"
  by (simp add: Button_click_def)

text \<open>
  C8: the layout is computed in the constructor, left to right with a fixed margin
  between adjacent buttons, and the row is to be centred in the container. On the
  toolbar that \<^verbatim>\<open>DrawArea.__init__\<close> builds, the code puts the buttons at
  x = 291 and x = 317: the row reaches from 291 to 337 in a container 640 wide,
  which leaves 291 to its left and 303 to its right, so the row is not centred.
\<close>

theorem toolbar_row_off_centre:
  "map b_pos (buttons (toolbar (DrawArea_init WIDTH (HEIGHT - UI_TOP_BAR_HEIGHT))))
     = [Some \<lparr>x = PyInt 291, y = PyInt 6\<rparr>, Some \<lparr>x = PyInt 317, y = PyInt 6\<rparr>] \<and>
   left_gap (toolbar (DrawArea_init WIDTH (HEIGHT - UI_TOP_BAR_HEIGHT))) = Some 291 \<and>
   right_gap (toolbar (DrawArea_init WIDTH (HEIGHT - UI_TOP_BAR_HEIGHT))) = Some 303"
  by (simp add: toolbar_buttons left_gap_def right_gap_def int_x_def WIDTH_def BUTTON_SIZE_def)

section \<open>Toolbar precedence\<close>










end
